theory Spec2Isabelle
  imports Complex_Main "HOL-Library.Word"
begin

section \<open>The camera of the path tracer (camera.h)\<close>

text \<open>
  A shallow embedding of class \<open>camera\<close>: \<open>initialize\<close> (the viewport builder),
  \<open>get_ray\<close> with \<open>pixel_sample_square\<close> and \<open>defocus_disk_sample\<close> (the ray
  sampler) and \<open>ray_colour\<close> (the path integrator). The loop of \<open>render\<close> over the
  pixels, which writes the image, is not modelled.

  Numbers. A C++ \<open>double\<close> is modelled as a \<open>real\<close> wherever its value stays a
  double: there arithmetic is exact, without rounding, infinity or NaN. Where IEEE
  arithmetic leaves the reals (a division by zero), HOL's \<open>x / 0 = 0\<close> is not what the
  program computes: the theorems on the normalised direction of a ray, on the camera frame
  and on the first pixel's location state that no divisor is zero. The one double that
  decides an integer is the quotient \<open>image_width / aspect_ratio\<close> that \<open>initialize\<close>
  converts to \<open>int\<close>: it is rounded to the nearest double as the IEEE division does, and
  it may be an infinity or a NaN. A C++ \<open>int\<close> is modelled as an \<open>int\<close>; the only
  place where the 32-bit range matters is that conversion, which the language leaves
  undefined for a double that is no \<open>int\<close>: there the result is the 32-bit value that
  the platform's conversion returns, a parameter. The other integer operation,
  \<open>depth - 1\<close>, is executed only when \<open>depth > 0\<close>.

  Effects. The program draws from a global random number generator, and the scene and
  the materials are reached through virtual calls. The state these calls may read and
  change (the generator) is an explicit value of a type \<open>'s\<close> that every such call takes
  and returns.
\<close>

subsection \<open>Vectors, rays, intervals and hit records\<close>

text \<open>
  Modelled from the spec: vec3.h is missing. The spec (section 6) asks for a real-valued
  3-vector with addition, scalar scale, dot and cross products, normalization,
  componentwise multiplication and component access. \<open>point3\<close> and \<open>colour\<close> are
  aliases of \<open>vec3\<close>.
\<close>

datatype vec3 = vec3 (x: real) (y: real) (z: real)

type_synonym point3 = vec3
type_synonym colour = vec3

abbreviation point3 :: "real \<Rightarrow> real \<Rightarrow> real \<Rightarrow> point3" where
  "point3 \<equiv> vec3"

abbreviation colour :: "real \<Rightarrow> real \<Rightarrow> real \<Rightarrow> colour" where
  "colour \<equiv> vec3"

instantiation vec3 :: "{zero, plus, minus, uminus, times, scaleR}"
begin

definition zero_vec3 :: vec3 where
  "zero_vec3 = vec3 0 0 0"

definition plus_vec3 :: "vec3 \<Rightarrow> vec3 \<Rightarrow> vec3" where
  "plus_vec3 a b = vec3 (x a + x b) (y a + y b) (z a + z b)"

definition minus_vec3 :: "vec3 \<Rightarrow> vec3 \<Rightarrow> vec3" where
  "minus_vec3 a b = vec3 (x a - x b) (y a - y b) (z a - z b)"

definition uminus_vec3 :: "vec3 \<Rightarrow> vec3" where
  "uminus_vec3 a = vec3 (- x a) (- y a) (- z a)"

definition times_vec3 :: "vec3 \<Rightarrow> vec3 \<Rightarrow> vec3" where
  "times_vec3 a b = vec3 (x a * x b) (y a * y b) (z a * z b)"

definition scaleR_vec3 :: "real \<Rightarrow> vec3 \<Rightarrow> vec3" where
  "scaleR_vec3 t a = vec3 (t * x a) (t * y a) (t * z a)"

instance ..

end

definition vdiv :: "vec3 \<Rightarrow> real \<Rightarrow> vec3" where
  \<comment> \<open>\<open>operator/(vec3, double)\<close>\<close>
  "vdiv a t = (1 / t) *\<^sub>R a"

definition dot :: "vec3 \<Rightarrow> vec3 \<Rightarrow> real" where
  "dot a b = x a * x b + y a * y b + z a * z b"

definition cross :: "vec3 \<Rightarrow> vec3 \<Rightarrow> vec3" where
  "cross a b = vec3 (y a * z b - z a * y b) (z a * x b - x a * z b) (x a * y b - y a * x b)"

definition length_squared :: "vec3 \<Rightarrow> real" where
  "length_squared a = x a * x a + y a * y a + z a * z a"

definition length_vec3 :: "vec3 \<Rightarrow> real" where
  "length_vec3 a = sqrt (length_squared a)"

definition unit_vector :: "vec3 \<Rightarrow> vec3" where
  "unit_vector a = vdiv a (length_vec3 a)"

text \<open>
  Modelled from the spec: ray.h is missing. A ray is an origin point and a direction
  vector (section 3).
\<close>

datatype ray = ray (origin: point3) (direction: vec3)

text \<open>
  A double where an infinity or a NaN can occur: the ends of an interval and the operand
  of the conversion to \<open>int\<close>.
\<close>

datatype double = Fin real | infinity | neg_infinity | NaN

text \<open>
  Modelled from the spec: interval.h and the constant \<open>infinity\<close> of rtweekend.h are
  missing. The ends of an interval are doubles, and the upper end the integrator passes is
  the IEEE infinity.
\<close>

datatype interval = interval (min_t: double) (max_t: double)

text \<open>
  Modelled from the spec: hittable.h and material.h are missing. A hit record holds the
  intersection point, the surface normal, a reference to the material, the parameter
  \<open>t\<close> and the front-face flag (section 3). The material is a reference of a type
  \<open>'m\<close>; its virtual method \<open>scatter\<close> is a function of that reference. The scene is
  its virtual method \<open>hit\<close>. Both return their out-parameters as an optional result
  (\<open>None\<close> when the C++ method returns false) together with the new state.
\<close>

record 'm hit_record =
  p :: point3
  normal :: vec3
  mat :: 'm
  t :: real
  front_face :: bool

type_synonym ('m, 's) hittable =
  "ray \<Rightarrow> interval \<Rightarrow> 's \<Rightarrow> 'm hit_record option \<times> 's"

type_synonym ('m, 's) material =
  "'m \<Rightarrow> ray \<Rightarrow> 'm hit_record \<Rightarrow> 's \<Rightarrow> (colour \<times> ray) option \<times> 's"

subsection \<open>The path integrator\<close>

function ray_colour ::
  "('m, 's) material \<Rightarrow> ray \<Rightarrow> int \<Rightarrow> ('m, 's) hittable \<Rightarrow> 's \<Rightarrow> colour \<times> 's" where
  "ray_colour scatter r depth world s =
     (if depth \<le> 0 then (colour 0 0 0, s)
      else
        (case world r (interval (Fin 0.001) infinity) s of
           (Some rec, s1) \<Rightarrow>
             (case scatter (mat rec) r rec s1 of
                (Some (attenuation, scattered), s2) \<Rightarrow>
                  (case ray_colour scatter scattered (depth - 1) world s2 of
                     (c, s3) \<Rightarrow> (attenuation * c, s3))
              | (None, s2) \<Rightarrow> (colour 0 0 0, s2))
         | (None, s1) \<Rightarrow>
             (let unit_direction = unit_vector (direction r);
                  a = 0.5 * (y unit_direction + 1.0)
              in ((1.0 - a) *\<^sub>R colour 1.0 1.0 1.0 + a *\<^sub>R colour 0.5 0.7 1.0, s1))))"
  by pat_completeness auto
termination
  by (relation "measure (\<lambda>(scatter, r, depth, world, s). nat depth)") auto

declare ray_colour.simps [simp del]

subsection \<open>The same recursion with a budget of stack frames\<close>

text \<open>
  \<open>ray_colour_frames n\<close> is \<open>ray_colour\<close> run with room for \<open>n\<close> nested
  invocations: each invocation takes one frame, and \<open>None\<close> is the stack running out.
\<close>

fun ray_colour_frames ::
  "nat \<Rightarrow> ('m, 's) material \<Rightarrow> ray \<Rightarrow> int \<Rightarrow> ('m, 's) hittable \<Rightarrow> 's \<Rightarrow> (colour \<times> 's) option" where
  "ray_colour_frames 0 scatter r depth world s = None"
| "ray_colour_frames (Suc n) scatter r depth world s =
     (if depth \<le> 0 then Some (colour 0 0 0, s)
      else
        (case world r (interval (Fin 0.001) infinity) s of
           (Some rec, s1) \<Rightarrow>
             (case scatter (mat rec) r rec s1 of
                (Some (attenuation, scattered), s2) \<Rightarrow>
                  (case ray_colour_frames n scatter scattered (depth - 1) world s2 of
                     Some (c, s3) \<Rightarrow> Some (attenuation * c, s3)
                   | None \<Rightarrow> None)
              | (None, s2) \<Rightarrow> Some (colour 0 0 0, s2))
         | (None, s1) \<Rightarrow>
             (let unit_direction = unit_vector (direction r);
                  a = 0.5 * (y unit_direction + 1.0)
              in Some ((1.0 - a) *\<^sub>R colour 1.0 1.0 1.0 + a *\<^sub>R colour 0.5 0.7 1.0, s1))))"

subsection \<open>Observing the scene queries\<close>

text \<open>
  A scene that records, in a second component of the state, the interval of every query
  it receives and otherwise answers as \<open>world\<close> does; and a material table that leaves
  the record alone.
\<close>

definition recording :: "('m, 's) hittable \<Rightarrow> ('m, 's \<times> interval list) hittable" where
  "recording world r ray_t = (\<lambda>(s, queries).
     case world r ray_t s of (res, s1) \<Rightarrow> (res, (s1, queries @ [ray_t])))"

definition unrecorded :: "('m, 's) material \<Rightarrow> ('m, 's \<times> interval list) material" where
  "unrecorded scatter m r rec = (\<lambda>(s, queries).
     case scatter m r rec s of (res, s1) \<Rightarrow> (res, (s1, queries)))"

subsection \<open>The camera\<close>

text \<open>
  The public members are the configuration, the private ones the derived state that
  \<open>initialize\<close> fills in.
\<close>

record camera =
  aspect_ratio :: real
  image_width :: int
  samples_per_pixel :: int
  max_depth :: int
  vfov :: real
  lookfrom :: point3
  lookat :: point3
  vup :: vec3
  defocus_angle :: real
  focus_dist :: real
  image_height :: int
  center :: point3
  pixel00_loc :: point3
  pixel_delta_u :: vec3
  pixel_delta_v :: vec3
  u :: vec3
  v :: vec3
  w :: vec3
  defocus_disk_u :: vec3
  defocus_disk_v :: vec3

text \<open>
  The division of two doubles: the quotient rounded to the nearest double (53 significant
  bits, exponents from -1022 to 1023, below them steps of \<open>2\<^sup>-\<^sup>1\<^sup>0\<^sup>7\<^sup>4\<close>), a tie to
  the even one, and to an infinity from \<open>2\<^sup>1\<^sup>0\<^sup>2\<^sup>4\<close> on. A zero divisor gives an infinity
  or a NaN (the sign of a zero is not modelled: it only chooses between the infinities).
\<close>

definition round_half_even :: "real \<Rightarrow> int" where
  "round_half_even m =
     (let f = \<lfloor>m\<rfloor>; d = m - of_int f
      in if d < 1 / 2 then f else if 1 / 2 < d then f + 1 else if even f then f else f + 1)"

definition round_double :: "real \<Rightarrow> double" where
  "round_double a =
     (if a = 0 then Fin 0
      else
        (let e = max (- 1022) \<lfloor>log 2 \<bar>a\<bar>\<rfloor>;
             ulp = 2 powi (e - 52);
             r = of_int (round_half_even (a / ulp)) * ulp
         in if 2 powi 1024 \<le> \<bar>r\<bar> then (if 0 < r then infinity else neg_infinity)
            else Fin r))"

definition divide_double :: "real \<Rightarrow> real \<Rightarrow> double" where
  "divide_double a b =
     (if b = 0 then (if a = 0 then NaN else if 0 < a then infinity else neg_infinity)
      else round_double (a / b))"

definition INT_MAX :: int where
  "INT_MAX = 2147483647"

definition INT_MIN :: int where
  "INT_MIN = - 2147483648"

definition static_cast_int :: "(double \<Rightarrow> 32 word) \<Rightarrow> double \<Rightarrow> int" where
  \<comment> \<open>The conversion truncates towards zero. When the truncated value is no \<open>int\<close>, or
      the double is no number, the language defines nothing: the result is what the
      platform's conversion returns, \<open>out_of_range\<close>.\<close>
  "static_cast_int out_of_range d =
     (case d of
        Fin a \<Rightarrow>
          (let n = (if a < 0 then \<lceil>a\<rceil> else \<lfloor>a\<rfloor>)
           in if INT_MIN \<le> n \<and> n \<le> INT_MAX then n else sint (out_of_range d))
      | _ \<Rightarrow> sint (out_of_range d))"

definition x86_64 :: "double \<Rightarrow> 32 word" where
  \<comment> \<open>The conversion instruction of x86-64 returns \<open>0x80000000\<close>, which is \<open>INT_MIN\<close>.\<close>
  "x86_64 d = 2147483648"

definition degrees_to_radians :: "real \<Rightarrow> real" where
  \<comment> \<open>Modelled from the spec: rtweekend.h is missing (\<open>theta = radians(vfov)\<close>).\<close>
  "degrees_to_radians degrees = degrees * pi / 180"

definition initialize :: "(double \<Rightarrow> 32 word) \<Rightarrow> camera \<Rightarrow> camera" where
  "initialize out_of_range c =
     (let image_height0 =
            static_cast_int out_of_range
              (divide_double (real_of_int (image_width c)) (aspect_ratio c));
          image_height = (if image_height0 < 1 then 1 else image_height0);
          center = lookfrom c;
          theta = degrees_to_radians (vfov c);
          h = tan (theta / 2);
          viewport_height = 2 * h * focus_dist c;
          viewport_width =
            viewport_height * (real_of_int (image_width c) / real_of_int image_height);
          w = unit_vector (lookfrom c - lookat c);
          u = unit_vector (cross (vup c) w);
          v = cross w u;
          viewport_u = viewport_width *\<^sub>R u;
          viewport_v = viewport_height *\<^sub>R (- v);
          pixel_delta_u = vdiv viewport_u (real_of_int (image_width c));
          pixel_delta_v = vdiv viewport_v (real_of_int image_height);
          viewport_upper_left =
            center - (focus_dist c *\<^sub>R w) - vdiv viewport_u 2 - vdiv viewport_v 2;
          pixel00_loc = viewport_upper_left + 0.5 *\<^sub>R (pixel_delta_u + pixel_delta_v);
          defocus_radius = focus_dist c * tan (degrees_to_radians (defocus_angle c / 2));
          defocus_disk_u = defocus_radius *\<^sub>R u;
          defocus_disk_v = defocus_radius *\<^sub>R v
      in c\<lparr>image_height := image_height, center := center,
            pixel00_loc := pixel00_loc, pixel_delta_u := pixel_delta_u,
            pixel_delta_v := pixel_delta_v, u := u, v := v, w := w,
            defocus_disk_u := defocus_disk_u,
            defocus_disk_v := defocus_disk_v\<rparr>)"

text \<open>
  The ray sampler. \<open>random_double\<close> (rtweekend.h) and \<open>random_in_unit_disk\<close> (vec3.h)
  are missing: they are parameters, each a draw from the generator's state.
\<close>

definition pixel_sample_square :: "('s \<Rightarrow> real \<times> 's) \<Rightarrow> camera \<Rightarrow> 's \<Rightarrow> vec3 \<times> 's" where
  "pixel_sample_square random_double c s =
     (let (d1, s1) = random_double s;
          px = - 0.5 + d1;
          (d2, s2) = random_double s1;
          py = - 0.5 + d2
      in ((px *\<^sub>R pixel_delta_u c) + (py *\<^sub>R pixel_delta_v c), s2))"

definition defocus_disk_sample :: "('s \<Rightarrow> vec3 \<times> 's) \<Rightarrow> camera \<Rightarrow> 's \<Rightarrow> point3 \<times> 's" where
  "defocus_disk_sample random_in_unit_disk c s =
     (let (p, s1) = random_in_unit_disk s
      in (center c + (x p *\<^sub>R defocus_disk_u c) + (y p *\<^sub>R defocus_disk_v c), s1))"

definition get_ray ::
  "('s \<Rightarrow> real \<times> 's) \<Rightarrow> ('s \<Rightarrow> vec3 \<times> 's) \<Rightarrow> camera \<Rightarrow> int \<Rightarrow> int \<Rightarrow> 's \<Rightarrow> ray \<times> 's" where
  "get_ray random_double random_in_unit_disk c i j s =
     (let pixel_center =
            pixel00_loc c + (real_of_int i *\<^sub>R pixel_delta_u c) + (real_of_int j *\<^sub>R pixel_delta_v c);
          (square, s1) = pixel_sample_square random_double c s;
          pixel_sample = pixel_center + square;
          (ray_origin, s2) =
            (if defocus_angle c \<le> 0 then (center c, s1)
             else defocus_disk_sample random_in_unit_disk c s1);
          ray_direction = pixel_sample - ray_origin
      in (ray ray_origin ray_direction, s2))"

subsection \<open>A small scene for concrete runs\<close>

text \<open>
  A ground that every descending ray hits, one unit along the ray, painted with material
  0 where the ray does not lean to the left and with material 1 where it does; material 0
  scatters half of the light straight along the normal and takes one draw from the
  generator (a counter), material 1 absorbs.
\<close>

definition ground :: "(nat, nat) hittable" where
  "ground r ray_t s =
     (if y (direction r) < 0
      then (Some \<lparr>p = origin r + direction r, normal = vec3 0 1 0,
                   mat = (if x (direction r) < 0 then 1 else 0), t = 1, front_face = True\<rparr>, s)
      else (None, s))"

definition paint :: "(nat, nat) material" where
  "paint m r rec s =
     (if m = 0 then (Some (colour 0.5 0.5 0.5, ray (p rec) (normal rec)), Suc s)
      else (None, s))"

definition nothing :: "(nat, nat) hittable" where
  \<comment> \<open>the empty scene\<close>
  "nothing r ray_t s = (None, s)"

definition pit :: "(nat, nat) hittable" where
  \<comment> \<open>every ray hits, at material 0\<close>
  "pit r ray_t s =
     (Some \<lparr>p = origin r + direction r, normal = vec3 0 1 0, mat = 0, t = 1,
             front_face = True\<rparr>, s)"

definition down :: ray where
  "down = ray (point3 0 0 0) (vec3 0 (- 1) 0)"

definition down_left :: ray where
  "down_left = ray (point3 0 0 0) (vec3 (- 1) (- 1) 0)"

definition up :: ray where
  "up = ray (point3 0 (- 1) 0) (vec3 0 1 0)"

text \<open>
  The camera as the class declares it, with its default member initialisers. The private
  members have no value before \<open>initialize\<close>; here they are zero. \<open>tall_camera\<close> has
  an aspect ratio of \<open>2\<^sup>-\<^sup>2\<^sup>7\<close>, \<open>squat_camera\<close> is one pixel wide and twice as wide as
  high, \<open>wide_camera\<close> is 400 pixels wide with the double nearest to 1.6 as aspect ratio,
  \<open>odd_camera\<close> 33 pixels with the double nearest to 1.1, \<open>lens_camera\<close> has a defocus
  angle of 90 degrees. \<open>default_view\<close> and \<open>lens_view\<close> are the states derived from
  \<open>default_camera\<close> and \<open>lens_camera\<close>.
\<close>

definition default_camera :: camera where
  "default_camera =
     \<lparr>aspect_ratio = 1.0, image_width = 100, samples_per_pixel = 10, max_depth = 10,
      vfov = 90, lookfrom = point3 0 0 (- 1), lookat = point3 0 0 0, vup = vec3 0 1 0,
      defocus_angle = 0, focus_dist = 10,
      image_height = 0, center = 0, pixel00_loc = 0, pixel_delta_u = 0, pixel_delta_v = 0,
      u = 0, v = 0, w = 0, defocus_disk_u = 0, defocus_disk_v = 0\<rparr>"

definition tall_camera :: camera where
  "tall_camera = default_camera\<lparr>aspect_ratio := 1 / 134217728\<rparr>"

definition squat_camera :: camera where
  "squat_camera = default_camera\<lparr>aspect_ratio := 2, image_width := 1\<rparr>"

definition wide_camera :: camera where
  "wide_camera =
     default_camera\<lparr>aspect_ratio := 3602879701896397 / 2251799813685248, image_width := 400\<rparr>"

definition odd_camera :: camera where
  "odd_camera =
     default_camera\<lparr>aspect_ratio := 2476979795053773 / 2251799813685248, image_width := 33\<rparr>"

definition lens_camera :: camera where
  "lens_camera = default_camera\<lparr>defocus_angle := 90\<rparr>"

definition default_view :: camera where
  "default_view = default_camera
     \<lparr>image_height := 100, center := point3 0 0 (- 1), pixel00_loc := point3 9.9 9.9 9,
      pixel_delta_u := vec3 (- 0.2) 0 0, pixel_delta_v := vec3 0 (- 0.2) 0,
      u := vec3 (- 1) 0 0, v := vec3 0 1 0, w := vec3 0 0 (- 1),
      defocus_disk_u := vec3 0 0 0, defocus_disk_v := vec3 0 0 0\<rparr>"

definition lens_view :: camera where
  "lens_view = default_view
     \<lparr>defocus_angle := 90, defocus_disk_u := vec3 (- 10) 0 0, defocus_disk_v := vec3 0 10 0\<rparr>"

text \<open>
  A generator that counts its draws: the doubles \<open>0, 0.25, 0.5, 0.75, 0, \<dots>\<close> and
  always the same point of the unit disk.
\<close>

definition quarters :: "nat \<Rightarrow> real \<times> nat" where
  "quarters s = (real (s mod 4) / 4, Suc s)"

definition disk_point :: "nat \<Rightarrow> vec3 \<times> nat" where
  "disk_point s = (vec3 (1 / 2) (- 1 / 4) 0, Suc s)"

section \<open>Properties\<close>

subsection \<open>Helper lemmas\<close>

lemma ray_colour_step:
  "0 < depth \<Longrightarrow>
     ray_colour scatter r depth world s =
       (case world r (interval (Fin 0.001) infinity) s of
           (Some rec, s1) \<Rightarrow>
             (case scatter (mat rec) r rec s1 of
                (Some (attenuation, scattered), s2) \<Rightarrow>
                  (case ray_colour scatter scattered (depth - 1) world s2 of
                     (c, s3) \<Rightarrow> (attenuation * c, s3))
              | (None, s2) \<Rightarrow> (colour 0 0 0, s2))
         | (None, s1) \<Rightarrow>
             (let unit_direction = unit_vector (direction r);
                  a = 0.5 * (y unit_direction + 1.0)
              in ((1.0 - a) *\<^sub>R colour 1.0 1.0 1.0 + a *\<^sub>R colour 0.5 0.7 1.0, s1)))"
  by (subst ray_colour.simps) simp

lemma unit_vector_up: "unit_vector (vec3 0 1 0) = vec3 0 1 0"
  by (simp add: unit_vector_def vdiv_def length_vec3_def length_squared_def scaleR_vec3_def)

lemma unit_vector_down: "unit_vector (vec3 0 (- 1) 0) = vec3 0 (- 1) 0"
  by (simp add: unit_vector_def vdiv_def length_vec3_def length_squared_def scaleR_vec3_def)

lemma ground_down:
  "ground down ray_t s =
     (Some \<lparr>p = vec3 0 (- 1) 0, normal = vec3 0 1 0, mat = 0, t = 1, front_face = True\<rparr>, s)"
  by (simp add: ground_def down_def plus_vec3_def)

lemma ground_down_left:
  "ground down_left ray_t s =
     (Some \<lparr>p = vec3 (- 1) (- 1) 0, normal = vec3 0 1 0, mat = 1, t = 1, front_face = True\<rparr>, s)"
  by (simp add: ground_def down_left_def plus_vec3_def)

lemma ground_up: "ground up ray_t s = (None, s)"
  by (simp add: ground_def up_def)

lemma ray_colour_up: "ray_colour paint up 1 ground s = (colour 0.5 0.7 1.0, s)"
  by (simp add: ray_colour_step ground_up)
    (simp add: up_def unit_vector_up scaleR_vec3_def plus_vec3_def)

lemma frames_enough:
  "nat depth < n \<Longrightarrow>
     ray_colour_frames n scatter r depth world s = Some (ray_colour scatter r depth world s)"
proof (induction n arbitrary: r depth s)
  case 0
  then show ?case by simp
next
  case (Suc n)
  show ?case
  proof (cases "depth \<le> 0")
    case True
    then show ?thesis by (simp add: ray_colour.simps)
  next
    case False
    with Suc.prems have "nat (depth - 1) < n" by linarith
    then have "\<And>r' s'. ray_colour_frames n scatter r' (depth - 1) world s' =
        Some (ray_colour scatter r' (depth - 1) world s')"
      by (rule Suc.IH)
    with False show ?thesis
      by (simp add: ray_colour_step [of depth scatter r] Let_def split: prod.splits option.splits)
  qed
qed

text \<open>
  The run against the recording scene is the run against the scene itself, and it appends
  to the record one copy of \<open>interval(0.001, infinity)\<close> for each query.
\<close>

lemma recording_run:
  "nat depth = k \<Longrightarrow>
     \<exists>n. ray_colour (unrecorded scatter) r depth (recording world) (s, qs) =
         (fst (ray_colour scatter r depth world s),
          (snd (ray_colour scatter r depth world s),
           qs @ replicate n (interval (Fin 0.001) infinity))) \<and>
        (0 < depth \<longrightarrow> 0 < n) \<and> n \<le> k"
proof (induction k arbitrary: r depth s qs)
  case 0
  then have "depth \<le> 0" by simp
  then have "ray_colour (unrecorded scatter) r depth (recording world) (s, qs) =
         (fst (ray_colour scatter r depth world s),
          (snd (ray_colour scatter r depth world s),
           qs @ replicate 0 (interval (Fin 0.001) infinity)))"
    by (simp add: ray_colour.simps)
  with \<open>depth \<le> 0\<close> show ?case by fastforce
next
  case (Suc k)
  let ?iv = "interval (Fin 0.001) infinity"
  from Suc.prems have pos: "0 < depth" and k: "nat (depth - 1) = k" by linarith+
  obtain res s1 where hit: "world r ?iv s = (res, s1)" by (cases "world r ?iv s")
  then have rhit: "recording world r ?iv (s, qs) = (res, (s1, qs @ [?iv]))"
    by (simp add: recording_def)
  show ?case
  proof (cases res)
    case None
    with pos hit rhit have "ray_colour (unrecorded scatter) r depth (recording world) (s, qs) =
         (fst (ray_colour scatter r depth world s),
          (snd (ray_colour scatter r depth world s), qs @ replicate 1 ?iv))"
      by (simp add: ray_colour_step Let_def)
    with pos show ?thesis by (intro exI [of _ 1]) simp
  next
    case (Some rec)
    obtain res2 s2 where sc: "scatter (mat rec) r rec s1 = (res2, s2)"
      by (cases "scatter (mat rec) r rec s1")
    then have rsc: "unrecorded scatter (mat rec) r rec (s1, qs @ [?iv]) = (res2, (s2, qs @ [?iv]))"
      by (simp add: unrecorded_def)
    show ?thesis
    proof (cases res2)
      case None
      with pos hit rhit sc rsc Some
      have "ray_colour (unrecorded scatter) r depth (recording world) (s, qs) =
         (fst (ray_colour scatter r depth world s),
          (snd (ray_colour scatter r depth world s), qs @ replicate 1 ?iv))"
        by (simp add: ray_colour_step [of depth])
      with pos show ?thesis by (intro exI [of _ 1]) simp
    next
      case inner: (Some as)
      obtain attenuation scattered where as: "as = (attenuation, scattered)" by (cases as)
      from Suc.IH [OF k, of scattered s2 "qs @ [?iv]"]
      obtain n where n: "ray_colour (unrecorded scatter) scattered (depth - 1) (recording world)
            (s2, qs @ [?iv]) =
         (fst (ray_colour scatter scattered (depth - 1) world s2),
          (snd (ray_colour scatter scattered (depth - 1) world s2),
           (qs @ [?iv]) @ replicate n ?iv))" and "n \<le> k"
        by blast
      from pos hit rhit sc rsc Some inner as n
      have "ray_colour (unrecorded scatter) r depth (recording world) (s, qs) =
         (fst (ray_colour scatter r depth world s),
          (snd (ray_colour scatter r depth world s), qs @ replicate (Suc n) ?iv))"
        by (simp add: ray_colour_step [of depth] split: prod.splits)
      with \<open>n \<le> k\<close> show ?thesis by (intro exI [of _ "Suc n"]) simp
    qed
  qed
qed

lemmas vec3_ops = zero_vec3_def plus_vec3_def minus_vec3_def uminus_vec3_def times_vec3_def
  scaleR_vec3_def vdiv_def

lemma length_squared_nonneg: "0 \<le> length_squared a"
  by (simp add: length_squared_def)

lemma length_squared_eq_0: "length_squared a = 0 \<longleftrightarrow> a = 0"
  by (cases a) (simp add: length_squared_def zero_vec3_def sum_squares_eq_zero_iff add_nonneg_eq_0_iff)

lemma length_vec3_eq_0: "length_vec3 a = 0 \<longleftrightarrow> a = 0"
  by (simp add: length_vec3_def length_squared_eq_0)

lemma length_squared_scale: "length_squared (k *\<^sub>R a) = k * k * length_squared a"
  by (simp add: length_squared_def scaleR_vec3_def algebra_simps)

lemma length_unit_vector:
  assumes "a \<noteq> 0"
  shows "length_vec3 (unit_vector a) = 1"
proof -
  have pos: "0 < length_squared a"
    using assms length_squared_nonneg [of a] length_squared_eq_0 [of a] by linarith
  have "length_squared (unit_vector a) =
      (1 / sqrt (length_squared a)) * (1 / sqrt (length_squared a)) * length_squared a"
    by (simp add: unit_vector_def vdiv_def length_vec3_def length_squared_scale)
  also have "\<dots> = 1" using pos by (simp add: field_simps)
  finally show ?thesis by (simp add: length_vec3_def)
qed

lemma cross_scale_right: "cross a (k *\<^sub>R b) = k *\<^sub>R cross a b"
  by (simp add: cross_def scaleR_vec3_def algebra_simps)

lemma dot_scale_left: "dot (k *\<^sub>R a) b = k * dot a b"
  by (simp add: dot_def scaleR_vec3_def algebra_simps)

lemma dot_scale_right: "dot a (k *\<^sub>R b) = k * dot a b"
  by (simp add: dot_def scaleR_vec3_def algebra_simps)

lemma dot_cross_right: "dot (cross a b) b = 0"
  by (simp add: dot_def cross_def algebra_simps)

lemma dot_cross_left: "dot (cross a b) a = 0"
  by (simp add: dot_def cross_def algebra_simps)

lemma dot_commute: "dot a b = dot b a"
  by (simp add: dot_def algebra_simps)

lemma length_squared_cross:
  "length_squared (cross a b) = length_squared a * length_squared b - dot a b * dot a b"
  by (simp add: length_squared_def cross_def dot_def algebra_simps)

lemma scale_eq_0: "k *\<^sub>R (a::vec3) = 0 \<longleftrightarrow> k = 0 \<or> a = 0"
  by (cases a) (auto simp add: scaleR_vec3_def zero_vec3_def)

lemma cross_zero_right: "cross a 0 = 0"
  by (simp add: cross_def zero_vec3_def)

lemma length_squared_unit:
  "length_vec3 a = 1 \<Longrightarrow> length_squared a = 1"
  by (simp add: length_vec3_def)

lemma camera_frame:
  assumes par: "cross a d \<noteq> 0"
  defines "ww \<equiv> unit_vector d"
  defines "uu \<equiv> unit_vector (cross a ww)"
  defines "vv \<equiv> cross ww uu"
  shows "dot uu vv = 0" "dot uu ww = 0" "dot vv ww = 0"
    "length_vec3 uu = 1" "length_vec3 vv = 1" "length_vec3 ww = 1"
proof -
  from par have d: "d \<noteq> 0" using cross_zero_right by auto
  then have ld: "length_vec3 d \<noteq> 0" by (simp add: length_vec3_eq_0)
  show w1: "length_vec3 ww = 1" unfolding ww_def using d by (rule length_unit_vector)
  have cw: "cross a ww = (1 / length_vec3 d) *\<^sub>R cross a d"
    by (simp add: ww_def unit_vector_def vdiv_def cross_scale_right)
  with par ld have nz: "cross a ww \<noteq> 0" by (simp add: scale_eq_0)
  then show u1: "length_vec3 uu = 1" unfolding uu_def by (rule length_unit_vector)
  show uw: "dot uu ww = 0"
    by (simp add: uu_def unit_vector_def vdiv_def dot_scale_left dot_cross_right)
  show "dot uu vv = 0"
    by (simp add: vv_def dot_commute [of uu] dot_cross_right)
  show "dot vv ww = 0"
    by (simp add: vv_def dot_cross_left)
  have "length_squared vv = 1"
    using w1 u1 uw
    by (simp add: vv_def length_squared_cross length_squared_unit dot_commute [of ww])
  then show "length_vec3 vv = 1" by (simp add: length_vec3_def)
qed


lemma sint_x86_64: "sint (x86_64 d) = - 2147483648"
  by (simp add: x86_64_def)

lemma round_half_even_nonneg: "0 \<le> m \<Longrightarrow> 0 \<le> round_half_even m"
  by (simp add: round_half_even_def Let_def)

lemma round_double_nonneg:
  assumes "0 \<le> a" and "round_double a = Fin b"
  shows "0 \<le> b"
proof (cases "a = 0")
  case True
  with assms(2) show ?thesis by (simp add: round_double_def)
next
  case False
  define ulp :: real where "ulp = 2 powi (max (- 1022) \<lfloor>log 2 \<bar>a\<bar>\<rfloor> - 52)"
  have "0 < ulp" by (simp add: ulp_def)
  with assms(1) have "0 \<le> a / ulp" by simp
  then have "0 \<le> round_half_even (a / ulp)" by (rule round_half_even_nonneg)
  with \<open>0 < ulp\<close> have "0 \<le> of_int (round_half_even (a / ulp)) * ulp" by simp
  moreover from assms(2) False have "b = of_int (round_half_even (a / ulp)) * ulp"
    by (simp add: round_double_def Let_def ulp_def split: if_splits)
  ultimately show ?thesis by simp
qed

lemma round_half_even_near: "\<bar>real_of_int (round_half_even m) - m\<bar> \<le> 1 / 2"
  by (simp add: round_half_even_def Let_def)

lemma floor_log2:
  assumes "2 powi e \<le> a" and "a < 2 powi (e + 1)"
  shows "\<lfloor>log 2 a\<rfloor> = e"
proof -
  have "(0::real) < 2 powi e" by simp
  with assms(1) have pos: "0 < a" by linarith
  have "2 powr real_of_int e = 2 powi e" "2 powr (real_of_int e + 1) = 2 powi (e + 1)"
    using powr_real_of_int' [of 2 e] powr_real_of_int' [of 2 "e + 1"] by simp_all
  with assms pos show ?thesis by (simp add: floor_log_eq_powr_iff)
qed

text \<open>
  A number between \<open>2\<^sup>e\<close> and \<open>2\<^sup>e\<^sup>+\<^sup>1\<close>, with \<open>e\<close> a normal exponent below the
  largest, is rounded to a multiple of \<open>2\<^sup>e\<^sup>-\<^sup>5\<^sup>2\<close> and stays finite.
\<close>

lemma round_double_Fin:
  assumes lo: "2 powi e \<le> \<bar>a\<bar>" and hi: "\<bar>a\<bar> < 2 powi (e + 1)"
    and e: "- 1022 \<le> e" "e \<le> 1022"
    and k: "round_half_even (a / 2 powi (e - 52)) = k"
  shows "round_double a = Fin (of_int k * 2 powi (e - 52))"
proof -
  let ?ulp = "2 powi (e - 52) :: real"
  have ulp: "0 < ?ulp" by simp
  have "(0::real) < 2 powi e" by simp
  with lo have "0 < \<bar>a\<bar>" by linarith
  then have nz: "a \<noteq> 0" by simp
  from lo hi have fl: "\<lfloor>log 2 \<bar>a\<bar>\<rfloor> = e" by (rule floor_log2)
  have "\<bar>real_of_int k - a / ?ulp\<bar> \<le> 1 / 2"
    using round_half_even_near [of "a / ?ulp"] k by simp
  then have "\<bar>real_of_int k\<bar> \<le> \<bar>a / ?ulp\<bar> + 1 / 2" by linarith
  then have "\<bar>real_of_int k\<bar> * ?ulp \<le> (\<bar>a / ?ulp\<bar> + 1 / 2) * ?ulp"
    using ulp by (simp only: mult_le_cancel_right_pos)
  also have "\<dots> = \<bar>a\<bar> + ?ulp / 2" using ulp by (simp add: field_simps abs_mult)
  also have "\<dots> < 2 powi (e + 1) + 2 powi (e + 1)"
  proof -
    have "?ulp \<le> 2 powi (e + 1)" by (rule power_int_increasing) simp_all
    with hi ulp show ?thesis by linarith
  qed
  also have "\<dots> = 2 powi (e + 2)" by (simp add: power_int_add)
  also have "\<dots> \<le> 2 powi 1024" using e by (intro power_int_increasing) simp_all
  finally have "\<bar>real_of_int k * ?ulp\<bar> < 2 powi 1024" using ulp by (simp add: abs_mult)
  with nz fl e k show ?thesis
    by (simp add: round_double_def Let_def max_def)
qed

lemma divide_double_default: "divide_double 100 1 = Fin 100"
  using round_double_Fin [of 6 100 "100 * 2 ^ 46"]
  by (simp add: divide_double_def power_int_def power_one_over round_half_even_def Let_def)

lemma divide_double_squat: "divide_double 1 2 = Fin (1 / 2)"
  using round_double_Fin [of "- 1" "1 / 2" "2 ^ 52"]
  by (simp add: divide_double_def power_int_def power_one_over round_half_even_def Let_def)

lemma divide_double_wide:
  "divide_double 400 (3602879701896397 / 2251799813685248) = Fin 250"
  using round_double_Fin [of 7 "400 / (3602879701896397 / 2251799813685248)" "250 * 2 ^ 45"]
  by (simp add: divide_double_def power_int_def power_one_over round_half_even_def Let_def)

lemma divide_double_odd:
  "divide_double 33 (2476979795053773 / 2251799813685248) = Fin (8444249301319679 / 281474976710656)"
  using round_double_Fin [of 4 "33 / (2476979795053773 / 2251799813685248)" 8444249301319679]
  by (simp add: divide_double_def power_int_def power_one_over round_half_even_def Let_def)

lemma divide_double_tall: "divide_double 100 (1 / 134217728) = Fin 13421772800"
  using round_double_Fin [of 33 "100 / (1 / 134217728)" "13421772800 * 2 ^ 19"]
  by (simp add: divide_double_def power_int_def power_one_over round_half_even_def Let_def)

lemma initialize_frame:
  "w (initialize out_of_range c) = unit_vector (lookfrom c - lookat c)"
  "u (initialize out_of_range c) =
     unit_vector (cross (vup c) (w (initialize out_of_range c)))"
  "v (initialize out_of_range c) =
     cross (w (initialize out_of_range c)) (u (initialize out_of_range c))"
  by (simp_all add: initialize_def Let_def)

lemma initialize_config:
  "center (initialize out_of_range c) = lookfrom c"
  "defocus_angle (initialize out_of_range c) = defocus_angle c"
  by (simp_all add: initialize_def Let_def)

lemma initialize_pixel00_loc:
  "pixel00_loc (initialize out_of_range c) =
     (let c' = initialize out_of_range c;
          viewport_height = 2 * tan (degrees_to_radians (vfov c) / 2) * focus_dist c;
          viewport_width =
            viewport_height * (real_of_int (image_width c) / real_of_int (image_height c'));
          viewport_u = viewport_width *\<^sub>R u c';
          viewport_v = viewport_height *\<^sub>R (- v c')
      in lookfrom c - (focus_dist c *\<^sub>R w c') - vdiv viewport_u 2 - vdiv viewport_v 2 +
         0.5 *\<^sub>R (pixel_delta_u c' + pixel_delta_v c'))"
  by (simp add: initialize_def Let_def)

lemma initialize_image_height_eq:
  "image_height (initialize out_of_range c) =
     max 1 (static_cast_int out_of_range
              (divide_double (real_of_int (image_width c)) (aspect_ratio c)))"
  by (simp add: initialize_def Let_def max_def)

lemma get_ray_origin:
  "origin (fst (get_ray random_double random_in_unit_disk c i j s)) =
     (if defocus_angle c \<le> 0 then center c
      else fst (defocus_disk_sample random_in_unit_disk c
                  (snd (pixel_sample_square random_double c s))))"
  by (simp add: get_ray_def Let_def split: prod.splits)

lemma initialize_default_camera: "initialize x86_64 default_camera = default_view"
  by (simp add: initialize_def default_camera_def default_view_def static_cast_int_def
      divide_double_default INT_MAX_def INT_MIN_def Let_def degrees_to_radians_def
      cross_def vec3_ops unit_vector_def length_vec3_def length_squared_def tan_45)

lemma initialize_lens_camera: "initialize x86_64 lens_camera = lens_view"
  by (simp add: initialize_def lens_camera_def lens_view_def default_camera_def default_view_def
      static_cast_int_def divide_double_default INT_MAX_def INT_MIN_def Let_def
      degrees_to_radians_def cross_def vec3_ops unit_vector_def length_vec3_def
      length_squared_def tan_45)

lemma get_ray_default_view:
  "get_ray quarters disk_point default_view 3 4 0 =
     (ray (point3 0 0 (- 1)) (vec3 9.4 9.15 10), 2)"
  by (simp add: get_ray_def pixel_sample_square_def quarters_def default_view_def
      default_camera_def Let_def vec3_ops)

subsection \<open>The path integrator\<close>

text \<open>
  C1. A ray that the scene reports as hit, at a depth above 0: if the material at the hit
  scatters, returning an attenuation and a scattered ray, the path integrator returns the
  componentwise product of the attenuation with the colour of the scattered ray integrated
  at \<open>depth - 1\<close> (from the state the material left); if the material absorbs, it returns
  black.
\<close>

theorem ray_colour_hit:
  assumes "0 < depth"
    and "world r (interval (Fin 0.001) infinity) s = (Some rec, s1)"
  shows "(scatter (mat rec) r rec s1 = (Some (attenuation, scattered), s2) \<longrightarrow>
            ray_colour scatter r depth world s =
              (attenuation * fst (ray_colour scatter scattered (depth - 1) world s2),
               snd (ray_colour scatter scattered (depth - 1) world s2))) \<and>
         (scatter (mat rec) r rec s1 = (None, s2) \<longrightarrow>
            ray_colour scatter r depth world s = (colour 0 0 0, s2))"
  using assms by (simp add: ray_colour_step [of depth scatter r] split: prod.splits)

text \<open>
  The ray \<open>down\<close> hits the ground at material 0, which scatters it upwards into the sky:
  half of the sky's blue comes back. The ray \<open>down_left\<close> hits material 1 and is absorbed.
\<close>

theorem ray_colour_hit_witness:
  "(0::int) < 2 \<and>
   ground down (interval (Fin 0.001) infinity) 0 =
     (Some \<lparr>p = vec3 0 (- 1) 0, normal = vec3 0 1 0, mat = 0, t = 1, front_face = True\<rparr>, 0) \<and>
   paint 0 down \<lparr>p = vec3 0 (- 1) 0, normal = vec3 0 1 0, mat = 0, t = 1, front_face = True\<rparr> 0 =
     (Some (colour 0.5 0.5 0.5, up), 1) \<and>
   ray_colour paint down 2 ground 0 = (colour 0.25 0.35 0.5, 1) \<and>
   ground down_left (interval (Fin 0.001) infinity) 0 =
     (Some \<lparr>p = vec3 (- 1) (- 1) 0, normal = vec3 0 1 0, mat = 1, t = 1, front_face = True\<rparr>, 0) \<and>
   paint 1 down_left
     \<lparr>p = vec3 (- 1) (- 1) 0, normal = vec3 0 1 0, mat = 1, t = 1, front_face = True\<rparr> 0 =
     (None, 0) \<and>
   ray_colour paint down_left 2 ground 0 = (colour 0 0 0, 0)"
proof -
  let ?rec0 = "\<lparr>p = vec3 0 (- 1) 0, normal = vec3 0 1 0, mat = 0::nat, t = 1, front_face = True\<rparr>"
  let ?rec1 = "\<lparr>p = vec3 (- 1) (- 1) 0, normal = vec3 0 1 0, mat = 1::nat, t = 1, front_face = True\<rparr>"
  have d: "(0::int) < 2" by simp
  have h0: "ground down (interval (Fin 0.001) infinity) 0 = (Some ?rec0, 0)"
    by (rule ground_down)
  have s0: "paint 0 down ?rec0 0 = (Some (colour 0.5 0.5 0.5, up), 1)"
    by (simp add: paint_def up_def)
  have h1: "ground down_left (interval (Fin 0.001) infinity) 0 = (Some ?rec1, 0)"
    by (rule ground_down_left)
  have s1: "paint 1 down_left ?rec1 0 = (None, 0)"
    by (simp add: paint_def)
  from ray_colour_hit [where world = ground and r = down and s = 0 and scatter = paint
      and attenuation = "colour 0.5 0.5 0.5" and scattered = up and ?s2.0 = 1, OF d h0] s0
  have c0: "ray_colour paint down 2 ground 0 = (colour 0.25 0.35 0.5, 1)"
    by (simp add: ray_colour_up times_vec3_def)
  from ray_colour_hit [where world = ground and r = down_left and s = 0 and scatter = paint
      and ?s2.0 = 0, OF d h1] s1
  have c1: "ray_colour paint down_left 2 ground 0 = (colour 0 0 0, 0)"
    by simp
  from d h0 s0 c0 h1 s1 c1 show ?thesis by blast
qed

text \<open>
  C2. A ray for which the scene reports no hit, at a depth above 0 and with a direction
  of non-zero length (a zero direction is outside the integrator's contract: its
  normalisation divides by zero): the path integrator returns the background gradient
  \<open>(1 - a) * (1, 1, 1) + a * (0.5, 0.7, 1.0)\<close> with \<open>a = 0.5 * (y + 1)\<close>, where \<open>y\<close> is
  the vertical component of the normalised direction. A normalised direction
  \<open>(0, 1, 0)\<close> gives \<open>(0.5, 0.7, 1.0)\<close>, and \<open>(0, -1, 0)\<close> gives \<open>(1, 1, 1)\<close>.
\<close>

theorem ray_colour_miss:
  assumes "0 < depth"
    and "world r (interval (Fin 0.001) infinity) s = (None, s1)"
    and "length_vec3 (direction r) \<noteq> 0"
  shows "ray_colour scatter r depth world s =
           (let a = 0.5 * (y (unit_vector (direction r)) + 1)
            in ((1 - a) *\<^sub>R colour 1 1 1 + a *\<^sub>R colour 0.5 0.7 1.0, s1)) \<and>
         (unit_vector (direction r) = vec3 0 1 0 \<longrightarrow>
            fst (ray_colour scatter r depth world s) = colour 0.5 0.7 1.0) \<and>
         (unit_vector (direction r) = vec3 0 (- 1) 0 \<longrightarrow>
            fst (ray_colour scatter r depth world s) = colour 1 1 1)"
  using assms(1,2)
  by (simp add: ray_colour_step [of depth scatter r] Let_def scaleR_vec3_def plus_vec3_def)

theorem ray_colour_miss_witness:
  "(0::int) < 1 \<and>
   nothing up (interval (Fin 0.001) infinity) 0 = (None, 0) \<and>
   length_vec3 (direction up) \<noteq> 0 \<and> unit_vector (direction up) = vec3 0 1 0 \<and>
   ray_colour paint up 1 nothing 0 = (colour 0.5 0.7 1.0, 0) \<and>
   nothing down (interval (Fin 0.001) infinity) 0 = (None, 0) \<and>
   length_vec3 (direction down) \<noteq> 0 \<and> unit_vector (direction down) = vec3 0 (- 1) 0 \<and>
   ray_colour paint down 1 nothing 0 = (colour 1 1 1, 0)"
proof -
  have d: "(0::int) < 1" by simp
  have m: "nothing up (interval (Fin 0.001) infinity) 0 = (None, 0)"
    "nothing down (interval (Fin 0.001) infinity) 0 = (None, 0)"
    by (simp_all add: nothing_def)
  have l: "length_vec3 (direction up) \<noteq> 0" "length_vec3 (direction down) \<noteq> 0"
    by (simp_all add: up_def down_def length_vec3_def length_squared_def)
  have n: "unit_vector (direction up) = vec3 0 1 0"
    "unit_vector (direction down) = vec3 0 (- 1) 0"
    by (simp_all add: up_def down_def unit_vector_up unit_vector_down)
  from ray_colour_miss [where world = nothing and r = up and s = 0 and scatter = paint,
      OF d m(1) l(1)] n(1)
  have c1: "ray_colour paint up 1 nothing 0 = (colour 0.5 0.7 1.0, 0)"
    by (simp add: scaleR_vec3_def plus_vec3_def)
  from ray_colour_miss [where world = nothing and r = down and s = 0 and scatter = paint,
      OF d m(2) l(2)] n(2)
  have c2: "ray_colour paint down 1 nothing 0 = (colour 1 1 1, 0)"
    by (simp add: scaleR_vec3_def plus_vec3_def)
  from d m l n c1 c2 show ?thesis by blast
qed

text \<open>
  C3. Depth exhausted: called with \<open>depth \<le> 0\<close>, the path integrator returns black
  for every ray, scene, material table and state, and asks neither the scene nor a
  material (the state is returned as it was).
\<close>

theorem ray_colour_depth_exhausted:
  "depth \<le> 0 \<Longrightarrow> ray_colour scatter r depth world s = (colour 0 0 0, s)"
  by (subst ray_colour.simps) simp

theorem ray_colour_depth_exhausted_witness:
  "(0::int) \<le> 0 \<and> ray_colour paint down 0 ground 0 = (colour 0 0 0, 0) \<and>
   (- 3::int) \<le> 0 \<and> ray_colour paint down (- 3) ground 7 = (colour 0 0 0, 7)"
  using ray_colour_depth_exhausted [of 0 paint down ground 0]
    ray_colour_depth_exhausted [of "- 3" paint down ground 7]
  by simp

text \<open>
  C4. Every query the path integrator puts to the scene asks for the range
  \<open>interval(0.001, infinity)\<close>, lower end 0.001 and upper end infinity, and at a depth
  above 0 it puts at least one. The queries are read off a run against the recording
  scene, which returns the colour and the state of the run against the scene itself.
\<close>

theorem ray_colour_scene_queries:
  assumes "ray_colour (unrecorded scatter) r depth (recording world) (s, []) = (c, s', queries)"
  shows "(\<forall>ray_t \<in> set queries. ray_t = interval (Fin 0.001) infinity) \<and>
         (0 < depth \<longrightarrow> queries \<noteq> []) \<and>
         (c, s') = ray_colour scatter r depth world s"
proof -
  from recording_run [OF refl, of scatter r depth world s "[]"] assms
  obtain n where "queries = replicate n (interval (Fin 0.001) infinity)"
    and "0 < depth \<longrightarrow> 0 < n" and "(c, s') = ray_colour scatter r depth world s"
    by auto
  then show ?thesis by auto
qed

theorem ray_colour_scene_queries_witness:
  "ray_colour (unrecorded paint) down 2 (recording ground) (0, []) =
     (colour 0.25 0.35 0.5, 1, [interval (Fin 0.001) infinity, interval (Fin 0.001) infinity]) \<and>
   (0::int) < 2 \<and>
   (colour 0.25 0.35 0.5, 1) = ray_colour paint down 2 ground 0"
proof -
  have run: "ray_colour (unrecorded paint) down 2 (recording ground) (0, []) =
     (colour 0.25 0.35 0.5, 1, [interval (Fin 0.001) infinity, interval (Fin 0.001) infinity])"
    by (simp add: ray_colour_step [of 2] ray_colour_step [of 1] recording_def unrecorded_def
        ground_down paint_def up_def [symmetric] ground_up)
      (simp add: up_def unit_vector_up scaleR_vec3_def plus_vec3_def times_vec3_def)
  from ray_colour_scene_queries [OF run] run show ?thesis by simp
qed

text \<open>
  C9. The path integrator terminates (\<open>ray_colour\<close> is a total function: its recursive
  call is at \<open>depth - 1\<close> and is made only when \<open>depth > 0\<close>), and from a depth
  \<open>d \<ge> 0\<close> it nests at most \<open>d\<close> recursive calls: \<open>d + 1\<close> stack frames are enough
  for the run to return, with the result of \<open>ray_colour\<close>.
\<close>

theorem ray_colour_terminates:
  "0 \<le> d \<Longrightarrow>
     ray_colour_frames (Suc (nat d)) scatter r d world s = Some (ray_colour scatter r d world s)"
  by (rule frames_enough) simp

text \<open>
  In the pit every ray hits and is scattered: from depth 2 the run uses all three frames,
  and two are not enough.
\<close>

theorem ray_colour_terminates_witness:
  "(0::int) \<le> 2 \<and> ray_colour_frames 3 paint down 2 pit 0 = Some (colour 0 0 0, 2) \<and>
   ray_colour_frames 2 paint down 2 pit 0 = None"
proof -
  have v: "ray_colour paint down 2 pit 0 = (colour 0 0 0, 2)"
    by (simp add: ray_colour_step [of 2] ray_colour_step [of 1] pit_def paint_def times_vec3_def)
      (simp add: ray_colour.simps)
  have "ray_colour_frames 2 paint down 2 pit 0 = None"
    by (simp add: numeral_2_eq_2 pit_def paint_def)
  with ray_colour_terminates [of 2 paint down pit 0] v show ?thesis
    by (simp add: numeral_3_eq_3)
qed

subsection \<open>The viewport builder\<close>

text \<open>
  C5. For every configuration whose up vector is not parallel to \<open>lookfrom - lookat\<close>
  (their cross product is not the zero vector, so \<open>lookfrom\<close> and \<open>lookat\<close> differ
  too), whatever the conversion of the image height returns, \<open>initialize\<close> sets the frame
  \<open>w = unit_vector(lookfrom - lookat)\<close>, \<open>u = unit_vector(cross(vup, w))\<close>,
  \<open>v = cross(w, u)\<close>, and \<open>u\<close>, \<open>v\<close>, \<open>w\<close> are mutually orthogonal unit vectors
  (in exact arithmetic).
\<close>

theorem initialize_frame_orthonormal:
  fixes out_of_range :: "double \<Rightarrow> 32 word" and c :: camera
  assumes "cross (vup c) (lookfrom c - lookat c) \<noteq> 0"
  defines "c' \<equiv> initialize out_of_range c"
  shows "w c' = unit_vector (lookfrom c - lookat c) \<and>
         u c' = unit_vector (cross (vup c) (w c')) \<and>
         v c' = cross (w c') (u c') \<and>
         dot (u c') (v c') = 0 \<and> dot (u c') (w c') = 0 \<and> dot (v c') (w c') = 0 \<and>
         length_vec3 (u c') = 1 \<and> length_vec3 (v c') = 1 \<and> length_vec3 (w c') = 1"
  unfolding c'_def
  using initialize_frame [of out_of_range c] camera_frame [OF assms(1)] by simp

text \<open>
  The default camera, and the tall camera, whose image height is out of range.
\<close>

theorem initialize_frame_orthonormal_witness:
  "initialize x86_64 default_camera = default_view \<and>
   cross (vup default_camera) (lookfrom default_camera - lookat default_camera) \<noteq> 0 \<and>
   w default_view = vec3 0 0 (- 1) \<and> u default_view = vec3 (- 1) 0 0 \<and>
   v default_view = vec3 0 1 0 \<and>
   dot (u default_view) (v default_view) = 0 \<and> dot (u default_view) (w default_view) = 0 \<and>
   dot (v default_view) (w default_view) = 0 \<and> length_vec3 (u default_view) = 1 \<and>
   length_vec3 (v default_view) = 1 \<and> length_vec3 (w default_view) = 1 \<and>
   cross (vup tall_camera) (lookfrom tall_camera - lookat tall_camera) \<noteq> 0 \<and>
   w (initialize x86_64 tall_camera) = vec3 0 0 (- 1) \<and>
   u (initialize x86_64 tall_camera) = vec3 (- 1) 0 0 \<and>
   v (initialize x86_64 tall_camera) = vec3 0 1 0"
proof -
  have n: "cross (vup default_camera) (lookfrom default_camera - lookat default_camera) \<noteq> 0"
    by (simp add: default_camera_def cross_def vec3_ops)
  have f: "w default_view = vec3 0 0 (- 1)" "u default_view = vec3 (- 1) 0 0"
    "v default_view = vec3 0 1 0"
    by (simp_all add: default_view_def)
  have t: "vup tall_camera = vec3 0 1 0"
    "lookfrom tall_camera - lookat tall_camera = vec3 0 0 (- 1)"
    by (simp_all add: tall_camera_def default_camera_def vec3_ops)
  have m: "cross (vup tall_camera) (lookfrom tall_camera - lookat tall_camera) \<noteq> 0"
    by (simp add: t cross_def zero_vec3_def)
  note g = initialize_frame_orthonormal [OF m, of x86_64]
  from g have ww: "w (initialize x86_64 tall_camera) = vec3 0 0 (- 1)"
    by (simp add: t unit_vector_def vdiv_def scaleR_vec3_def length_vec3_def length_squared_def)
  from g have "u (initialize x86_64 tall_camera) =
      unit_vector (cross (vec3 0 1 0) (vec3 0 0 (- 1)))"
    by (simp add: ww t)
  then have uu: "u (initialize x86_64 tall_camera) = vec3 (- 1) 0 0"
    by (simp add: cross_def vec3_ops unit_vector_def length_vec3_def length_squared_def)
  from g have vv: "v (initialize x86_64 tall_camera) = vec3 0 1 0"
    by (simp add: ww uu cross_def)
  note d = initialize_frame_orthonormal [OF n, of x86_64, unfolded initialize_default_camera]
  from d f n m ww uu vv initialize_default_camera show ?thesis by blast
qed

text \<open>
  C6, amended. \<open>initialize\<close> sets an \<open>image_height\<close> of at least 1 for every
  configuration. For a positive \<open>image_width\<close> and a positive \<open>aspect_ratio\<close>, with
  \<open>q\<close> the quotient \<open>image_width / aspect_ratio\<close> as the division of doubles returns
  it (the nearest double): if \<open>floor(q)\<close> is at most \<open>INT_MAX\<close>, then
  \<open>image_height = max(1, floor(q))\<close>.
\<close>

theorem initialize_image_height:
  "1 \<le> image_height (initialize out_of_range c) \<and>
   (0 < image_width c \<and> 0 < aspect_ratio c \<and>
    divide_double (real_of_int (image_width c)) (aspect_ratio c) = Fin q \<and>
    \<lfloor>q\<rfloor> \<le> INT_MAX \<longrightarrow>
      image_height (initialize out_of_range c) = max 1 \<lfloor>q\<rfloor>)"
proof (intro conjI impI)
  show "1 \<le> image_height (initialize out_of_range c)"
    by (simp add: initialize_image_height_eq)
next
  assume a: "0 < image_width c \<and> 0 < aspect_ratio c \<and>
    divide_double (real_of_int (image_width c)) (aspect_ratio c) = Fin q \<and>
    \<lfloor>q\<rfloor> \<le> INT_MAX"
  then have pos: "0 < image_width c" "0 < aspect_ratio c" by simp_all
  then have "0 \<le> real_of_int (image_width c) / aspect_ratio c" by simp
  moreover from a pos
  have "round_double (real_of_int (image_width c) / aspect_ratio c) = Fin q"
    by (simp add: divide_double_def)
  ultimately have "0 \<le> q" by (rule round_double_nonneg)
  then have "0 \<le> \<lfloor>q\<rfloor>" by simp
  with a \<open>0 \<le> q\<close> have "static_cast_int out_of_range (Fin q) = \<lfloor>q\<rfloor>"
    by (simp add: static_cast_int_def INT_MIN_def Let_def)
  with a show "image_height (initialize out_of_range c) = max 1 \<lfloor>q\<rfloor>"
    by (simp add: initialize_image_height_eq)
qed

text \<open>
  The default camera (100 / 1), the squat camera (1 / 2, raised to 1), and two cameras
  whose quotient the division rounds: 400 / 1.6 is a little less than 250 and is rounded
  to 250, 33 / 1.1 is a little less than 30 and is rounded to the double below 30.
\<close>

theorem initialize_image_height_witness:
  "divide_double (real_of_int (image_width default_camera)) (aspect_ratio default_camera) =
     Fin 100 \<and>
   image_height (initialize x86_64 default_camera) = 100 \<and>
   divide_double (real_of_int (image_width squat_camera)) (aspect_ratio squat_camera) =
     Fin (1 / 2) \<and>
   image_height (initialize x86_64 squat_camera) = 1 \<and>
   divide_double (real_of_int (image_width wide_camera)) (aspect_ratio wide_camera) =
     Fin 250 \<and>
   \<lfloor>real_of_int (image_width wide_camera) / aspect_ratio wide_camera\<rfloor> = 249 \<and>
   image_height (initialize x86_64 wide_camera) = 250 \<and>
   divide_double (real_of_int (image_width odd_camera)) (aspect_ratio odd_camera) =
     Fin (8444249301319679 / 281474976710656) \<and>
   image_height (initialize x86_64 odd_camera) = 29 \<and>
   1 \<le> image_height (initialize x86_64 tall_camera)"
proof -
  have a: "0 < image_width default_camera \<and> 0 < aspect_ratio default_camera \<and>
      divide_double (real_of_int (image_width default_camera)) (aspect_ratio default_camera) =
        Fin 100 \<and> \<lfloor>100::real\<rfloor> \<le> INT_MAX"
    by (simp add: default_camera_def divide_double_default INT_MAX_def)
  have b: "0 < image_width squat_camera \<and> 0 < aspect_ratio squat_camera \<and>
      divide_double (real_of_int (image_width squat_camera)) (aspect_ratio squat_camera) =
        Fin (1 / 2) \<and> \<lfloor>1 / 2 :: real\<rfloor> \<le> INT_MAX"
    by (simp add: squat_camera_def default_camera_def divide_double_squat INT_MAX_def)
  have c: "0 < image_width wide_camera \<and> 0 < aspect_ratio wide_camera \<and>
      divide_double (real_of_int (image_width wide_camera)) (aspect_ratio wide_camera) =
        Fin 250 \<and> \<lfloor>250::real\<rfloor> \<le> INT_MAX"
    by (simp add: wide_camera_def default_camera_def divide_double_wide INT_MAX_def)
  have d: "0 < image_width odd_camera \<and> 0 < aspect_ratio odd_camera \<and>
      divide_double (real_of_int (image_width odd_camera)) (aspect_ratio odd_camera) =
        Fin (8444249301319679 / 281474976710656) \<and> \<lfloor>8444249301319679 / 281474976710656 :: real\<rfloor> \<le> INT_MAX"
    by (simp add: odd_camera_def default_camera_def divide_double_odd INT_MAX_def)
  have e: "\<lfloor>real_of_int (image_width wide_camera) / aspect_ratio wide_camera\<rfloor> = 249"
    by (simp add: wide_camera_def default_camera_def)
  from initialize_image_height [of x86_64 default_camera 100] a
  have a': "image_height (initialize x86_64 default_camera) = 100" by simp
  from initialize_image_height [of x86_64 squat_camera "1 / 2"] b
  have b': "image_height (initialize x86_64 squat_camera) = 1" by simp
  from initialize_image_height [of x86_64 wide_camera 250] c
  have c': "image_height (initialize x86_64 wide_camera) = 250" by simp
  from initialize_image_height [of x86_64 odd_camera "8444249301319679 / 281474976710656"] d
  have d': "image_height (initialize x86_64 odd_camera) = 29" by simp
  from initialize_image_height [of x86_64 tall_camera 0]
  have t': "1 \<le> image_height (initialize x86_64 tall_camera)" by blast
  from a b c d e a' b' c' d' t' show ?thesis by blast
qed

text \<open>
  C6 as stated, for every positive \<open>image_width\<close> and \<open>aspect_ratio\<close>, fails: with
  the default width of 100 and an aspect ratio of \<open>2\<^sup>-\<^sup>2\<^sup>7\<close> the quotient is exactly
  13421772800, which no \<open>int\<close> holds; on x86-64 the conversion returns \<open>INT_MIN\<close> and
  the image height is 1.
\<close>

theorem initialize_image_height_counterexample:
  "0 < image_width tall_camera \<and> 0 < aspect_ratio tall_camera \<and>
   real_of_int (image_width tall_camera) / aspect_ratio tall_camera = 13421772800 \<and>
   max 1 \<lfloor>real_of_int (image_width tall_camera) / aspect_ratio tall_camera\<rfloor> = 13421772800 \<and>
   INT_MAX < 13421772800 \<and>
   image_height (initialize x86_64 tall_camera) = 1"
  by (simp add: tall_camera_def default_camera_def initialize_image_height_eq
      divide_double_tall static_cast_int_def sint_x86_64 INT_MAX_def INT_MIN_def)

text \<open>
  C10. For every configuration, whatever the conversion of the image height returns, the
  derived camera center is the configuration's \<open>lookfrom\<close>; so a pinhole ray
  (\<open>defocus_angle \<le> 0\<close>) of the derived camera starts at \<open>lookfrom\<close>. And the
  \<open>center\<close> of the upper left corner in \<open>pixel00_loc\<close> is \<open>lookfrom\<close>, where no
  division on the way is by zero: the image has a width, the up vector is not parallel to
  \<open>lookfrom - lookat\<close>, and the tangent of half the field of view exists.
\<close>

theorem initialize_center:
  "center (initialize out_of_range c) = lookfrom c \<and>
   (defocus_angle c \<le> 0 \<longrightarrow>
      origin (fst (get_ray random_double random_in_unit_disk
                     (initialize out_of_range c) i j s)) = lookfrom c) \<and>
   (image_width c \<noteq> 0 \<and> cross (vup c) (lookfrom c - lookat c) \<noteq> 0 \<and>
    cos (degrees_to_radians (vfov c) / 2) \<noteq> 0 \<longrightarrow>
      pixel00_loc (initialize out_of_range c) =
        (let c' = initialize out_of_range c;
             viewport_height = 2 * tan (degrees_to_radians (vfov c) / 2) * focus_dist c;
             viewport_width =
               viewport_height * (real_of_int (image_width c) / real_of_int (image_height c'));
             viewport_u = viewport_width *\<^sub>R u c';
             viewport_v = viewport_height *\<^sub>R (- v c')
         in lookfrom c - (focus_dist c *\<^sub>R w c') - vdiv viewport_u 2 - vdiv viewport_v 2 +
            0.5 *\<^sub>R (pixel_delta_u c' + pixel_delta_v c')))"
  using initialize_config [of out_of_range c] initialize_pixel00_loc [of out_of_range c]
  by (simp add: get_ray_origin)

theorem initialize_center_witness:
  "initialize x86_64 default_camera = default_view \<and>
   center default_view = point3 0 0 (- 1) \<and> lookfrom default_camera = point3 0 0 (- 1) \<and>
   defocus_angle default_camera \<le> 0 \<and>
   origin (fst (get_ray quarters disk_point default_view 3 4 0)) = point3 0 0 (- 1) \<and>
   image_width default_camera \<noteq> 0 \<and>
   cross (vup default_camera) (lookfrom default_camera - lookat default_camera) \<noteq> 0 \<and>
   cos (degrees_to_radians (vfov default_camera) / 2) \<noteq> 0 \<and>
   pixel00_loc default_view = point3 9.9 9.9 9 \<and>
   center (initialize x86_64 tall_camera) = point3 0 0 (- 1)"
proof -
  have h: "defocus_angle default_camera \<le> 0" "lookfrom default_camera = point3 0 0 (- 1)"
    "image_width default_camera \<noteq> 0"
    "cross (vup default_camera) (lookfrom default_camera - lookat default_camera) \<noteq> 0"
    by (simp_all add: default_camera_def cross_def vec3_ops)
  have k: "cos (degrees_to_radians (vfov default_camera) / 2) \<noteq> 0"
    by (simp add: default_camera_def degrees_to_radians_def cos_45)
  have p: "pixel00_loc default_view = point3 9.9 9.9 9"
    by (simp add: default_view_def)
  have "lookfrom tall_camera = point3 0 0 (- 1)"
    by (simp add: tall_camera_def default_camera_def)
  with initialize_center [of x86_64 tall_camera quarters disk_point 3 4 0]
  have t: "center (initialize x86_64 tall_camera) = point3 0 0 (- 1)" by simp
  from initialize_center [of x86_64 default_camera quarters disk_point 3 4 0] h
    initialize_default_camera
  have "center default_view = point3 0 0 (- 1)"
    "origin (fst (get_ray quarters disk_point default_view 3 4 0)) = point3 0 0 (- 1)"
    by simp_all
  with h k p t initialize_default_camera show ?thesis by blast
qed

subsection \<open>The ray sampler\<close>

text \<open>
  C7. For every pixel \<open>(i, j)\<close> and every two draws of the generator, the direction of
  the sampled ray is \<open>pixel_sample - origin\<close>, not normalised, where
  \<open>pixel_sample = pixel00_loc + i * pixel_delta_u + j * pixel_delta_v + px * pixel_delta_u
  + py * pixel_delta_v\<close>, \<open>px\<close> and \<open>py\<close> are \<open>-0.5\<close> plus the first and the second
  draw, and \<open>origin\<close> is the origin of the same ray.
\<close>

theorem get_ray_direction:
  "direction (fst (get_ray random_double random_in_unit_disk c i j s)) =
     (let px = - 0.5 + fst (random_double s);
          py = - 0.5 + fst (random_double (snd (random_double s)));
          pixel_sample =
            pixel00_loc c + real_of_int i *\<^sub>R pixel_delta_u c + real_of_int j *\<^sub>R pixel_delta_v c +
            px *\<^sub>R pixel_delta_u c + py *\<^sub>R pixel_delta_v c
      in pixel_sample - origin (fst (get_ray random_double random_in_unit_disk c i j s)))"
  by (simp add: get_ray_def pixel_sample_square_def Let_def vec3_ops split: prod.splits)

theorem get_ray_direction_witness:
  "direction (fst (get_ray quarters disk_point default_view 3 4 0)) = vec3 9.4 9.15 10 \<and>
   origin (fst (get_ray quarters disk_point default_view 3 4 0)) = point3 0 0 (- 1) \<and>
   fst (quarters 0) = 0 \<and> fst (quarters (snd (quarters 0))) = 0.25 \<and>
   pixel00_loc default_view + 3 *\<^sub>R pixel_delta_u default_view +
     4 *\<^sub>R pixel_delta_v default_view + (- 0.5) *\<^sub>R pixel_delta_u default_view +
     (- 0.25) *\<^sub>R pixel_delta_v default_view = point3 9.4 9.15 9"
proof -
  have o: "origin (fst (get_ray quarters disk_point default_view 3 4 0)) = point3 0 0 (- 1)"
    by (simp add: get_ray_default_view)
  have q: "fst (quarters 0) = 0" "fst (quarters (snd (quarters 0))) = 0.25"
    by (simp_all add: quarters_def)
  have s: "pixel00_loc default_view + 3 *\<^sub>R pixel_delta_u default_view +
     4 *\<^sub>R pixel_delta_v default_view + (- 0.5) *\<^sub>R pixel_delta_u default_view +
     (- 0.25) *\<^sub>R pixel_delta_v default_view = point3 9.4 9.15 9"
    by (simp add: default_view_def default_camera_def vec3_ops)
  have "direction (fst (get_ray quarters disk_point default_view 3 4 0)) = vec3 9.4 9.15 10"
    using get_ray_direction [of quarters disk_point default_view 3 4 0]
    by (simp add: o q Let_def) (simp add: default_view_def default_camera_def vec3_ops)
  with o q s show ?thesis by blast
qed

text \<open>
  C8. For every pixel and every state of the generator, the origin of the sampled ray is
  the camera center when \<open>defocus_angle \<le> 0\<close>, and otherwise
  \<open>center + p.x * defocus_disk_u + p.y * defocus_disk_v\<close> for the point \<open>p\<close> that
  \<open>random_in_unit_disk\<close> draws after the two draws of the pixel sample.
\<close>

theorem get_ray_origin_cases:
  "origin (fst (get_ray random_double random_in_unit_disk c i j s)) =
     (if defocus_angle c \<le> 0 then center c
      else
        (let p = fst (random_in_unit_disk (snd (pixel_sample_square random_double c s)))
         in center c + x p *\<^sub>R defocus_disk_u c + y p *\<^sub>R defocus_disk_v c))"
  by (simp add: get_ray_origin defocus_disk_sample_def Let_def split: prod.splits)

theorem get_ray_origin_cases_witness:
  "initialize x86_64 lens_camera = lens_view \<and> defocus_angle default_view \<le> 0 \<and>
   origin (fst (get_ray quarters disk_point default_view 3 4 0)) = center default_view \<and>
   \<not> defocus_angle lens_view \<le> 0 \<and>
   fst (disk_point (snd (pixel_sample_square quarters lens_view 0))) = vec3 (1 / 2) (- 1 / 4) 0 \<and>
   origin (fst (get_ray quarters disk_point lens_view 3 4 0)) = point3 (- 5) (- 2.5) (- 1)"
proof -
  have a: "defocus_angle default_view \<le> 0" "\<not> defocus_angle lens_view \<le> 0"
    by (simp_all add: lens_view_def default_view_def default_camera_def)
  have d: "fst (disk_point (snd (pixel_sample_square quarters lens_view 0))) =
      vec3 (1 / 2) (- 1 / 4) 0"
    by (simp add: disk_point_def)
  from get_ray_origin_cases [of quarters disk_point default_view 3 4 0] a(1)
  have o1: "origin (fst (get_ray quarters disk_point default_view 3 4 0)) = center default_view"
    by simp
  from get_ray_origin_cases [of quarters disk_point lens_view 3 4 0] a(2) d
  have o2: "origin (fst (get_ray quarters disk_point lens_view 3 4 0)) =
      point3 (- 5) (- 2.5) (- 1)"
    by (simp add: Let_def) (simp add: lens_view_def default_view_def default_camera_def vec3_ops)
  from initialize_lens_camera a d o1 o2 show ?thesis by blast
qed

end
